theory Spec2Isabelle
  imports Main
begin

section \<open>Data model of the data-service worker\<close>

text \<open>
  The worker's Hono application (the three GET routes) and its queue handler
  \<open>handleLinkClick\<close> are embedded from the source. The helpers they import
  (\<open>getRoutingDestinations\<close>, \<open>getDestinationForCountry\<close>, \<open>cloudflareInfoSchema\<close>,
  \<open>addLinkClick\<close>, \<open>scheduleEvalWorfklow\<close>) and the bindings of \<open>c.env\<close> are
  collaborators of the handlers: the handlers take them as parameters.
\<close>

subsection \<open>Geo signal, link and queue message\<close>

text \<open>
  The data of a successful \<open>cloudflareInfoSchema.safeParse\<close>. The handler reads
  \<open>country\<close>, \<open>latitude\<close> and \<open>longitude\<close> of it; \<open>'n\<close> is the type of a coordinate.
\<close>

record 'n cloudflareInfo =
  country :: string
  latitude :: "'n option"
  longitude :: "'n option"

text \<open>
  Modelled from the spec: the rule type of a link (its declaration is in the data-ops
  package). A rule is a geo predicate on the country code and a destination URL.
\<close>

record rule =
  predicate :: "string \<Rightarrow> bool"
  destination :: string

text \<open>
  Modelled from the spec: the routing information \<open>getRoutingDestinations\<close> resolves a
  link id to (the type declaration is in the data-ops package): the owning account, the
  ordered rules and the default destination. The redirect handler reads \<open>accountId\<close> only
  and hands the whole value to \<open>getDestinationForCountry\<close>.
\<close>

record link_info =
  accountId :: string
  rules :: "rule list"
  defaultDestination :: string

text \<open>The \<open>data\<close> object of the queue message, as the redirect handler builds it.\<close>

record 'n link_click_data =
  data_id :: string
  data_country :: string
  data_destination :: string
  data_accountId :: string
  data_latitude :: "'n option"
  data_longitude :: "'n option"
  data_timestamp :: string

record 'n LinkClickMessageType =
  msg_type :: string
  msg_data :: "'n link_click_data"

subsection \<open>Requests, responses and the effects of a handler\<close>

text \<open>
  A GET request: the segments of its path (\<open>/a/b\<close> is \<open>[a, b]\<close>), its headers, looked up
  by the name the handler asks for, and the raw \<open>cf\<close> object of the runtime.
\<close>

record 'cf request =
  path :: "string list"
  header :: "string \<Rightarrow> string option"
  cf :: 'cf

text \<open>
  What a handler answers: \<open>c.text(body, status)\<close>, \<open>c.json({})\<close> (status 200),
  \<open>c.redirect(location)\<close> (status 302, Hono's default), the answer of the Durable Object
  stub the raw request was forwarded to, or Hono's 404 when no route matches.
\<close>

datatype ('id, 'cf) response =
    Text string nat
  | Json nat
  | Redirect string nat
  | StubFetch 'id "'cf request"
  | NotFound

fun status :: "('id, 'cf) response \<Rightarrow> nat option" where
  "status (Text body s) = Some s"
| "status (Json s) = Some s"
| "status (Redirect location s) = Some s"
| "status (StubFetch i r) = None"
| "status NotFound = Some 404"

text \<open>
  The promise of \<open>QUEUE.send\<close> settles as accepted or rejected. The handler never awaits
  it: the promise goes to \<open>executionCtx.waitUntil\<close>.
\<close>

datatype send_result = Accepted | QueueUnavailable

text \<open>
  The result of running a handler: the response, the \<open>QUEUE.send\<close> calls it made (message
  and \<open>delaySeconds\<close>) and the outcomes of the promises it handed to \<open>waitUntil\<close>.
\<close>

record ('n, 'cf, 'id) result =
  resp :: "('id, 'cf) response"
  sent :: "('n LinkClickMessageType \<times> nat) list"
  waitUntil :: "send_result list"

definition respond :: "('id, 'cf) response \<Rightarrow> ('n, 'cf, 'id) result" where
  "respond r = \<lparr>resp = r, sent = [], waitUntil = []\<rparr>"

text \<open>
  The collaborators of the handlers: the imported helpers, applied to \<open>c.env\<close> where they
  take it, the schema's \<open>safeParse\<close> (\<open>Some\<close> the parsed data on success), the queue
  binding, \<open>idFromName\<close> of the two Durable Object namespaces, and the clock read by
  \<open>new Date().toISOString()\<close>. The awaited \<open>getRoutingDestinations\<close> answers a link or
  \<open>null\<close> (\<open>Inr\<close>), or its promise rejects with an error (\<open>Inl\<close>);
  \<open>getDestinationForCountry\<close> returns the destination (\<open>Inr\<close>) or throws (\<open>Inl\<close>);
  \<open>safeParse\<close> never throws. \<open>'e\<close> is the type of the errors.
\<close>

record ('n, 'cf, 'id, 'e) deps =
  getRoutingDestinations :: "string \<Rightarrow> 'e + link_info option"
  cloudflareInfoSchema :: "'cf \<Rightarrow> 'n cloudflareInfo option"
  getDestinationForCountry :: "link_info \<Rightarrow> string \<Rightarrow> 'e + string"
  QUEUE_send :: "'n LinkClickMessageType \<Rightarrow> nat \<Rightarrow> send_result"
  LINK_CLICK_TRACKER_OBJECT_idFromName :: "string \<Rightarrow> 'id"
  EVALUATION_SCHEDULER_idFromName :: "string \<Rightarrow> 'id"
  Date_now :: string

section \<open>The Hono application\<close>

text \<open>\<open>App.get('/click-socket/:accountId')\<close>\<close>

definition get_click_socket ::
  "('n, 'cf, 'id, 'e) deps \<Rightarrow> 'cf request \<Rightarrow> ('n, 'cf, 'id) result" where
  "get_click_socket d req =
     (case header req ''Upgrade'' of
        None \<Rightarrow> respond (Text ''Expected Upgrade: websocket'' 426)
      | Some upgradeHeader \<Rightarrow>
          if upgradeHeader = [] \<or> upgradeHeader \<noteq> ''websocket''
          then respond (Text ''Expected Upgrade: websocket'' 426)
          else (case header req ''accountId'' of
                  None \<Rightarrow> respond (Text ''No Headers'' 404)
                | Some accountId' \<Rightarrow>
                    if accountId' = [] then respond (Text ''No Headers'' 404)
                    else respond
                      (StubFetch (LINK_CLICK_TRACKER_OBJECT_idFromName d accountId') req)))"

text \<open>\<open>App.get('/do/:name')\<close>: the stub is created and not used.\<close>

definition get_do :: "('n, 'cf, 'id, 'e) deps \<Rightarrow> string \<Rightarrow> ('n, 'cf, 'id) result" where
  "get_do d name = respond (Json 200)"

text \<open>
  No handler catches an error and the application registers no \<open>onError\<close>, so an error
  thrown in a handler reaches Hono's default error handler, which answers
  \<open>c.text('Internal Server Error', 500)\<close>. Nothing that the handler would have done after
  the throw happens.
\<close>

definition errorHandler :: "('n, 'cf, 'id) result" where
  "errorHandler = respond (Text ''Internal Server Error'' 500)"

text \<open>\<open>App.get('/:id')\<close>, the redirect handler.\<close>

definition queueMessage ::
  "('n, 'cf, 'id, 'e) deps \<Rightarrow> string \<Rightarrow> link_info \<Rightarrow> 'n cloudflareInfo \<Rightarrow> string
     \<Rightarrow> 'n LinkClickMessageType" where
  "queueMessage d i linkInfo headers dest =
     \<lparr>msg_type = ''LINK_CLICK'',
      msg_data = \<lparr>data_id = i,
                  data_country = country headers,
                  data_destination = dest,
                  data_accountId = accountId linkInfo,
                  data_latitude = latitude headers,
                  data_longitude = longitude headers,
                  data_timestamp = Date_now d\<rparr>\<rparr>"

definition get_id ::
  "('n, 'cf, 'id, 'e) deps \<Rightarrow> string \<Rightarrow> 'cf request \<Rightarrow> ('n, 'cf, 'id) result" where
  "get_id d i req =
     (case getRoutingDestinations d i of
        Inl e \<Rightarrow> errorHandler
      | Inr found \<Rightarrow>
          (case found of
             None \<Rightarrow> respond (Text ''Destination not found'' 404)
           | Some linkInfo \<Rightarrow>
               (case cloudflareInfoSchema d (cf req) of
                  None \<Rightarrow> respond (Text ''Invalid Cloudflare Headers'' 400)
                | Some headers \<Rightarrow>
                    (case getDestinationForCountry d linkInfo (country headers) of
                       Inl e \<Rightarrow> errorHandler
                     | Inr dest \<Rightarrow>
                         let m = queueMessage d i linkInfo headers dest
                         in \<lparr>resp = Redirect dest 302,
                             sent = [(m, 10 * 60)],
                             waitUntil = [QUEUE_send d m (10 * 60)]\<rparr>))))"

text \<open>
  The routes in the order of their registration. A parameter segment (\<open>:id\<close>) matches
  one non-empty segment, so a path of two segments never reaches \<open>/:id\<close>.
\<close>

datatype matched = ClickSocketRoute string | DoRoute string | IdRoute string | NoRoute

fun route :: "string list \<Rightarrow> matched" where
  "route [a, b] =
     (if a = ''click-socket'' \<and> b \<noteq> [] then ClickSocketRoute b
      else if a = ''do'' \<and> b \<noteq> [] then DoRoute b
      else NoRoute)"
| "route [i] = (if i \<noteq> [] then IdRoute i else NoRoute)"
| "route p = NoRoute"

definition App :: "('n, 'cf, 'id, 'e) deps \<Rightarrow> 'cf request \<Rightarrow> ('n, 'cf, 'id) result" where
  "App d req =
     (case route (path req) of
        ClickSocketRoute a \<Rightarrow> get_click_socket d req
      | DoRoute name \<Rightarrow> get_do d name
      | IdRoute i \<Rightarrow> get_id d i req
      | NoRoute \<Rightarrow> respond NotFound)"

text \<open>The Durable Object instance a response comes from, if it comes from one.\<close>

fun instance_reached :: "('id, 'cf) response \<Rightarrow> 'id option" where
  "instance_reached (StubFetch i r) = Some i"
| "instance_reached other = None"

section \<open>The queue handler\<close>

text \<open>
  \<open>handleLinkClick\<close> awaits \<open>addLinkClick(event.data)\<close> and then
  \<open>scheduleEvalWorfklow(env, event)\<close>, with no \<open>try\<close> around either. A collaborator is a
  step on the state \<open>'s\<close> of the world outside the handler: it returns \<open>None\<close> when its
  promise resolves and \<open>Some e\<close> when it rejects with \<open>e\<close>, and the state it leaves. The
  result of the handler is the result for the whole message: the function returns
  nothing else.
\<close>

definition handleLinkClick ::
  "('n link_click_data \<Rightarrow> 's \<Rightarrow> 'e option \<times> 's)
     \<Rightarrow> ('n LinkClickMessageType \<Rightarrow> 's \<Rightarrow> 'e option \<times> 's)
     \<Rightarrow> 'n LinkClickMessageType \<Rightarrow> 's \<Rightarrow> 'e option \<times> 's" where
  "handleLinkClick addLinkClick scheduleEvalWorfklow event s =
     (case addLinkClick (msg_data event) s of
        (Some e, s1) \<Rightarrow> (Some e, s1)
      | (None, s1) \<Rightarrow> scheduleEvalWorfklow event s1)"

section \<open>Collaborators modelled from the spec\<close>

subsection \<open>Router\<close>

text \<open>
  Modelled from the spec: the \<open>RoutingError\<close> of the Router, whose code is not among the
  sources.
\<close>

datatype routing_error = NoDestination

text \<open>
  Modelled from the spec: the Router \<open>resolve\<close> (\<open>getDestinationForCountry\<close> of
  \<open>helpers/route-ops\<close>, which is not among the sources). Rules are tried in list order and
  the first rule whose predicate matches the country code wins; when none matches the
  default destination is returned, and an empty default with no match is the
  \<open>RoutingError\<close> \<open>NoDestination\<close>.
\<close>

fun resolve :: "rule list \<Rightarrow> string \<Rightarrow> string \<Rightarrow> routing_error + string" where
  "resolve [] countryCode defaultDest =
     (if defaultDest = [] then Inl NoDestination else Inr defaultDest)"
| "resolve (r # rs) countryCode defaultDest =
     (if predicate r countryCode then Inr (destination r)
      else resolve rs countryCode defaultDest)"


subsection \<open>Errors\<close>

text \<open>
  Modelled from the spec: the errors of its taxonomy that the collaborators raise: a
  transient storage or network failure, a contract violation, and the Router's error.
  The sources name no error type, and the handlers are generic in it.
\<close>

datatype error = RetryableError | FatalError | RoutingError routing_error

text \<open>
  Modelled from the spec: \<open>getDestinationForCountry(linkInfo, country)\<close> as the Router
  applied to the rules and the default destination of the link; its \<open>RoutingError\<close> is
  thrown.
\<close>

definition resolveLink :: "link_info \<Rightarrow> string \<Rightarrow> error + string" where
  "resolveLink linkInfo countryCode =
     (case resolve (rules linkInfo) countryCode (defaultDestination linkInfo) of
        Inl e \<Rightarrow> Inl (RoutingError e)
      | Inr dest \<Rightarrow> Inr dest)"

subsection \<open>Persistence of click events\<close>

text \<open>
  Modelled from the spec: the persisted store that \<open>addLinkClick\<close> writes, a table of
  click records with a key column, the event id, and the upsert into it: the record of
  a key that is present is replaced, the record of a new key is appended.
\<close>

record ('k, 'n) persisted =
  store :: "('k \<times> 'n link_click_data) list"

primrec upsert :: "'k \<Rightarrow> 'v \<Rightarrow> ('k \<times> 'v) list \<Rightarrow> ('k \<times> 'v) list" where
  "upsert k v [] = [(k, v)]"
| "upsert k v (row # rows) =
     (if fst row = k then (k, v) # rows else row # upsert k v rows)"

text \<open>
  Modelled from the spec: \<open>addLinkClick\<close> of the data-ops package, which is not among the
  sources: an idempotent upsert keyed by the event id. The queue message has no field
  for the event id, so the key of a click record is a parameter, \<open>eventId\<close>. A transient
  storage failure (\<open>up\<close> false) rejects with \<open>RetryableError\<close> and writes nothing.
\<close>

definition addLinkClick ::
  "('n link_click_data \<Rightarrow> 'k) \<Rightarrow> bool \<Rightarrow> 'n link_click_data
     \<Rightarrow> ('k, 'n, 'z) persisted_scheme \<Rightarrow> error option \<times> ('k, 'n, 'z) persisted_scheme" where
  "addLinkClick eventId up d s =
     (if up then (None, s\<lparr>store := upsert (eventId d) d (store s)\<rparr>)
      else (Some RetryableError, s))"

definition records_of :: "'k \<Rightarrow> ('k \<times> 'v) list \<Rightarrow> ('k \<times> 'v) list" where
  "records_of k rows = filter (\<lambda>row. fst row = k) rows"

section \<open>A concrete scenario\<close>

text \<open>
  The end-to-end scenario of the spec: the link \<open>dAd5d\<close> of account \<open>acc_123\<close>, with no
  country rules and the default destination \<open>https://example.com/fallback\<close>, visited
  from the country \<open>US\<close>. The raw \<open>cf\<close> object is a list of fields, and the schema accepts
  it when it has a country.
\<close>

definition example_link :: link_info where
  "example_link =
     \<lparr>accountId = ''acc_123'', rules = [],
      defaultDestination = ''https://example.com/fallback''\<rparr>"

definition example_schema :: "(string \<times> string) list \<Rightarrow> string cloudflareInfo option" where
  "example_schema raw =
     (case map_of raw ''country'' of
        None \<Rightarrow> None
      | Some c \<Rightarrow>
          Some \<lparr>country = c, latitude = map_of raw ''latitude'',
                longitude = map_of raw ''longitude''\<rparr>)"

definition example_queue :: "string LinkClickMessageType \<Rightarrow> nat \<Rightarrow> send_result" where
  "example_queue m delaySeconds = Accepted"

definition queue_down :: "string LinkClickMessageType \<Rightarrow> nat \<Rightarrow> send_result" where
  "queue_down m delaySeconds = QueueUnavailable"

definition example_links :: "string \<Rightarrow> error + link_info option" where
  "example_links i = Inr (if i = ''dAd5d'' then Some example_link else None)"

text \<open>A record store that is down: the read of any link rejects.\<close>

definition storage_down :: "string \<Rightarrow> error + link_info option" where
  "storage_down i = Inl RetryableError"

definition example_deps :: "(string, (string \<times> string) list, string, error) deps" where
  "example_deps =
     \<lparr>getRoutingDestinations = example_links,
      cloudflareInfoSchema = example_schema,
      getDestinationForCountry = resolveLink,
      QUEUE_send = example_queue,
      LINK_CLICK_TRACKER_OBJECT_idFromName = (\<lambda>name. ''tracker:'' @ name),
      EVALUATION_SCHEDULER_idFromName = (\<lambda>name. ''scheduler:'' @ name),
      Date_now = ''2024-01-15T14:32:18.000Z''\<rparr>"

definition no_headers :: "string \<Rightarrow> string option" where
  "no_headers name = None"

definition socket_headers :: "string \<Rightarrow> string option" where
  "socket_headers name =
     (if name = ''Upgrade'' then Some ''websocket''
      else if name = ''accountId'' then Some ''acc_123''
      else None)"

definition visit_from_US :: "(string \<times> string) list request" where
  "visit_from_US =
     \<lparr>path = [''dAd5d''], header = no_headers, cf = [(''country'', ''US'')]\<rparr>"

definition visit_unknown_link :: "(string \<times> string) list request" where
  "visit_unknown_link =
     \<lparr>path = [''nolink''], header = no_headers, cf = []\<rparr>"

definition click_stream_request :: "(string \<times> string) list request" where
  "click_stream_request =
     \<lparr>path = [''click-stream'', ''acc_123''], header = no_headers, cf = []\<rparr>"

definition click_socket_request :: "string \<Rightarrow> (string \<times> string) list request" where
  "click_socket_request a =
     \<lparr>path = [''click-socket'', a], header = socket_headers, cf = []\<rparr>"

definition example_event :: "string LinkClickMessageType" where
  "example_event =
     \<lparr>msg_type = ''LINK_CLICK'',
      msg_data = \<lparr>data_id = ''dAd5d'', data_country = ''US'',
                  data_destination = ''https://example.com/fallback'',
                  data_accountId = ''acc_123'',
                  data_latitude = None, data_longitude = None,
                  data_timestamp = ''2024-01-15T14:32:18.000Z''\<rparr>\<rparr>"

definition example_eventId :: "string link_click_data \<Rightarrow> string \<times> string" where
  "example_eventId d = (data_id d, data_timestamp d)"

definition empty_store :: "(string \<times> string, string) persisted" where
  "empty_store = \<lparr>store = []\<rparr>"

text \<open>A Scheduler whose call fails, and one that succeeds; neither writes the store.\<close>

definition failingScheduler ::
  "string LinkClickMessageType \<Rightarrow> (string \<times> string, string) persisted
     \<Rightarrow> error option \<times> (string \<times> string, string) persisted" where
  "failingScheduler event s = (Some RetryableError, s)"

definition idleScheduler ::
  "string LinkClickMessageType \<Rightarrow> (string \<times> string, string) persisted
     \<Rightarrow> error option \<times> (string \<times> string, string) persisted" where
  "idleScheduler event s = (None, s)"

section \<open>Routing\<close>

lemma App_single: "path req = [i] \<Longrightarrow> i \<noteq> [] \<Longrightarrow> App d req = get_id d i req"
  by (simp add: App_def)

lemma App_click_socket:
  "path req = [''click-socket'', a] \<Longrightarrow> a \<noteq> [] \<Longrightarrow> App d req = get_click_socket d req"
  by (simp add: App_def)

lemma route_IdRoute: "route p = IdRoute i \<Longrightarrow> p = [i] \<and> i \<noteq> []"
  by (induction p rule: route.induct) (auto split: if_splits)

lemma get_click_socket_no_redirect: "resp (get_click_socket d req) \<noteq> Redirect u st"
  by (simp add: get_click_socket_def respond_def split: option.splits)

lemma App_Redirect_path:
  assumes "resp (App d req) = Redirect u st"
  shows "\<exists>i. path req = [i] \<and> i \<noteq> []"
proof (cases "route (path req)")
  case (ClickSocketRoute a)
  with assms show ?thesis by (simp add: App_def get_click_socket_no_redirect)
next
  case (DoRoute n)
  with assms show ?thesis by (simp add: App_def get_do_def respond_def)
next
  case (IdRoute i)
  then show ?thesis using route_IdRoute by blast
next
  case NoRoute
  with assms show ?thesis by (simp add: App_def respond_def)
qed

section \<open>The redirect endpoint\<close>

text \<open>
  C1, as amended. A request \<open>GET /{linkId}\<close> is answered in one of four ways. When the
  lookup answers that the link id is unknown the response is 404. When the link resolves
  and the geo signal fails the schema the response is 400. When the link resolves, the
  geo signal is valid and the router returns a destination, the response is a 302
  redirect to it. When the lookup rejects or the router throws, the handler catches
  nothing and the response is the 500 of Hono's error handler, with no message sent. The
  status is never anything but 302, 404, 400 or 500.
\<close>

theorem redirect_statuses:
  assumes "path req = [i]" and "i \<noteq> []"
  shows "(getRoutingDestinations d i = Inr None \<longrightarrow>
            resp (App d req) = Text ''Destination not found'' 404)
       \<and> (\<forall>l. getRoutingDestinations d i = Inr (Some l)
              \<and> cloudflareInfoSchema d (cf req) = None \<longrightarrow>
            resp (App d req) = Text ''Invalid Cloudflare Headers'' 400)
       \<and> (\<forall>l h u. getRoutingDestinations d i = Inr (Some l)
              \<and> cloudflareInfoSchema d (cf req) = Some h
              \<and> getDestinationForCountry d l (country h) = Inr u \<longrightarrow>
            resp (App d req) = Redirect u 302)
       \<and> (\<forall>e. getRoutingDestinations d i = Inl e \<longrightarrow>
            resp (App d req) = Text ''Internal Server Error'' 500 \<and> sent (App d req) = [])
       \<and> (\<forall>l h e. getRoutingDestinations d i = Inr (Some l)
              \<and> cloudflareInfoSchema d (cf req) = Some h
              \<and> getDestinationForCountry d l (country h) = Inl e \<longrightarrow>
            resp (App d req) = Text ''Internal Server Error'' 500 \<and> sent (App d req) = [])
       \<and> status (resp (App d req)) \<in> {Some 302, Some 404, Some 400, Some 500}"
  unfolding App_single [OF assms]
  by (auto simp: get_id_def errorHandler_def respond_def Let_def
      split: option.splits sum.splits)

theorem redirect_statuses_witness:
  "resp (App example_deps visit_from_US) = Redirect ''https://example.com/fallback'' 302
   \<and> resp (App example_deps visit_unknown_link) = Text ''Destination not found'' 404
   \<and> resp (App example_deps (visit_from_US\<lparr>cf := []\<rparr>)) = Text ''Invalid Cloudflare Headers'' 400"
proof -
  have a: "path visit_from_US = [''dAd5d'']" by (simp add: visit_from_US_def)
  have b: "path visit_unknown_link = [''nolink'']" by (simp add: visit_unknown_link_def)
  have c: "path (visit_from_US\<lparr>cf := []\<rparr>) = [''dAd5d'']" by (simp add: visit_from_US_def)
  show ?thesis
    using redirect_statuses [OF a, of example_deps]
      redirect_statuses [OF b, of example_deps]
      redirect_statuses [OF c, of example_deps]
    by (simp add: example_deps_def example_links_def example_link_def example_schema_def
        resolveLink_def visit_from_US_def visit_unknown_link_def)
qed

text \<open>
  C1, as stated, fails: when the record store is down the lookup of the link rejects,
  the handler does not catch the error, and the visitor of \<open>/dAd5d\<close> is answered 500, a
  status other than 302, 404 and 400.
\<close>

theorem redirect_500_when_lookup_rejects:
  "path visit_from_US = [''dAd5d'']
   \<and> getRoutingDestinations (example_deps\<lparr>getRoutingDestinations := storage_down\<rparr>) ''dAd5d''
       = Inl RetryableError
   \<and> resp (App (example_deps\<lparr>getRoutingDestinations := storage_down\<rparr>) visit_from_US)
       = Text ''Internal Server Error'' 500
   \<and> status (resp (App (example_deps\<lparr>getRoutingDestinations := storage_down\<rparr>) visit_from_US))
       \<notin> {Some 302, Some 404, Some 400}"
  by (simp add: App_def get_id_def errorHandler_def respond_def storage_down_def
      visit_from_US_def)

text \<open>
  C3. The response of the application does not depend on the queue: with any two
  behaviours of \<open>QUEUE.send\<close> (one that accepts, one that is unavailable) the response and
  the send calls are the same, and for a link that resolves with a valid geo signal the
  response is the 302 redirect to the resolved destination. The outcome of the send only
  reaches \<open>waitUntil\<close>.
\<close>

theorem redirect_independent_of_queue:
  "resp (App (d\<lparr>QUEUE_send := q\<rparr>) req) = resp (App (d\<lparr>QUEUE_send := q'\<rparr>) req)
   \<and> sent (App (d\<lparr>QUEUE_send := q\<rparr>) req) = sent (App (d\<lparr>QUEUE_send := q'\<rparr>) req)
   \<and> (\<forall>i l h u. path req = [i] \<and> i \<noteq> [] \<and> getRoutingDestinations d i = Inr (Some l)
          \<and> cloudflareInfoSchema d (cf req) = Some h
          \<and> getDestinationForCountry d l (country h) = Inr u \<longrightarrow>
        resp (App (d\<lparr>QUEUE_send := q\<rparr>) req) = Redirect u 302)"
  by (auto simp: App_def get_id_def get_click_socket_def get_do_def errorHandler_def
      respond_def Let_def queueMessage_def split: option.splits sum.splits matched.splits)

theorem redirect_independent_of_queue_witness:
  "resp (App (example_deps\<lparr>QUEUE_send := queue_down\<rparr>) visit_from_US)
     = Redirect ''https://example.com/fallback'' 302
   \<and> resp (App (example_deps\<lparr>QUEUE_send := example_queue\<rparr>) visit_from_US)
     = Redirect ''https://example.com/fallback'' 302
   \<and> waitUntil (App (example_deps\<lparr>QUEUE_send := queue_down\<rparr>) visit_from_US)
     = [QueueUnavailable]"
  using redirect_independent_of_queue
    [where d = example_deps and q = queue_down and req = visit_from_US and q' = example_queue]
  by (simp add: example_deps_def example_links_def example_link_def example_schema_def
      resolveLink_def visit_from_US_def App_def get_id_def queue_down_def Let_def)

text \<open>
  C5. Every redirect response comes with exactly one \<open>QUEUE.send\<close> call: its message has
  the type \<open>LINK_CLICK\<close>, the requested link id, the country and coordinates of the geo
  signal, the account id of the resolved link, the destination the response redirects
  to and the timestamp of the clock; its \<open>delaySeconds\<close> is 600. One promise, the one of
  that call, is handed to \<open>waitUntil\<close>.
\<close>

theorem one_message_per_redirect:
  assumes "resp (App d req) = Redirect u st"
  shows "\<exists>i l h. path req = [i] \<and> getRoutingDestinations d i = Inr (Some l)
           \<and> cloudflareInfoSchema d (cf req) = Some h
           \<and> getDestinationForCountry d l (country h) = Inr u \<and> st = 302
           \<and> sent (App d req) =
               [(\<lparr>msg_type = ''LINK_CLICK'',
                  msg_data = \<lparr>data_id = i, data_country = country h,
                              data_destination = u, data_accountId = accountId l,
                              data_latitude = latitude h, data_longitude = longitude h,
                              data_timestamp = Date_now d\<rparr>\<rparr>, 600)]
           \<and> length (waitUntil (App d req)) = 1"
proof -
  from App_Redirect_path [OF assms] obtain i where p: "path req = [i]" and n: "i \<noteq> []"
    by blast
  have A: "App d req = get_id d i req" using p n by (rule App_single)
  from assms show ?thesis unfolding A using p
    by (auto simp: get_id_def errorHandler_def respond_def Let_def queueMessage_def
        split: option.splits sum.splits)
qed

theorem one_message_per_redirect_witness:
  "sent (App example_deps visit_from_US) =
     [(\<lparr>msg_type = ''LINK_CLICK'',
        msg_data = \<lparr>data_id = ''dAd5d'', data_country = ''US'',
                    data_destination = ''https://example.com/fallback'',
                    data_accountId = ''acc_123'',
                    data_latitude = None, data_longitude = None,
                    data_timestamp = ''2024-01-15T14:32:18.000Z''\<rparr>\<rparr>, 600)]"
proof -
  have r: "resp (App example_deps visit_from_US) = Redirect ''https://example.com/fallback'' 302"
    by (simp add: example_deps_def example_links_def example_link_def example_schema_def
        resolveLink_def visit_from_US_def App_def get_id_def Let_def)
  show ?thesis
    using one_message_per_redirect [OF r]
    by (auto simp: example_deps_def example_links_def example_link_def example_schema_def
        resolveLink_def visit_from_US_def split: if_splits)
qed

text \<open>
  C9. The link is looked up before the geo signal is validated. For an unknown link id
  the response is 404 whatever the raw \<open>cf\<close> object and the schema are, and a 400 for the
  geo signal is only ever answered for a link id that resolves.
\<close>

theorem unknown_link_before_geo:
  assumes "path req = [i]" and "i \<noteq> []"
  shows "(getRoutingDestinations d i = Inr None \<longrightarrow>
            App (d\<lparr>cloudflareInfoSchema := schema\<rparr>) (req\<lparr>cf := raw\<rparr>)
              = respond (Text ''Destination not found'' 404))
       \<and> (resp (App d req) = Text ''Invalid Cloudflare Headers'' 400 \<longrightarrow>
            (\<exists>l. getRoutingDestinations d i = Inr (Some l))
            \<and> cloudflareInfoSchema d (cf req) = None)"
  using assms
  by (auto simp: App_single get_id_def errorHandler_def respond_def Let_def
      split: option.splits sum.splits)

theorem unknown_link_before_geo_witness:
  "App example_deps visit_unknown_link = respond (Text ''Destination not found'' 404)
   \<and> App example_deps (visit_unknown_link\<lparr>cf := [(''country'', ''US'')]\<rparr>)
       = respond (Text ''Destination not found'' 404)
   \<and> resp (App example_deps (visit_from_US\<lparr>cf := []\<rparr>)) = Text ''Invalid Cloudflare Headers'' 400
   \<and> getRoutingDestinations example_deps ''dAd5d'' = Inr (Some example_link)"
proof -
  have a: "path visit_unknown_link = [''nolink'']" by (simp add: visit_unknown_link_def)
  have b: "path (visit_from_US\<lparr>cf := []\<rparr>) = [''dAd5d'']" by (simp add: visit_from_US_def)
  have c: "getRoutingDestinations example_deps ''nolink'' = Inr None"
    by (simp add: example_deps_def example_links_def)
  show ?thesis
    using unknown_link_before_geo
        [OF a, of example_deps example_schema "[]"]
      unknown_link_before_geo
        [OF a, of example_deps example_schema "[(''country'', ''US'')]"]
      unknown_link_before_geo [OF b, of example_deps]
    by (simp add: c example_deps_def example_links_def example_link_def example_schema_def
        visit_from_US_def visit_unknown_link_def App_def get_id_def respond_def)
qed

section \<open>The subscription endpoint\<close>

text \<open>
  C8, as amended. The subscription endpoint is served at \<open>GET /click-socket/{accountId}\<close>.
  A request to it whose \<open>Upgrade\<close> header is not \<open>websocket\<close> is answered 426; one that asks
  for the upgrade and has no (or an empty) \<open>accountId\<close> header is answered 404; any other
  request is forwarded to the aggregator instance named by the \<open>accountId\<close> header.
\<close>

theorem click_socket_endpoint:
  assumes "path req = [''click-socket'', a]" and "a \<noteq> []"
  shows "(header req ''Upgrade'' \<noteq> Some ''websocket'' \<longrightarrow>
            resp (App d req) = Text ''Expected Upgrade: websocket'' 426)
       \<and> (header req ''Upgrade'' = Some ''websocket''
            \<and> (header req ''accountId'' = None \<or> header req ''accountId'' = Some []) \<longrightarrow>
            resp (App d req) = Text ''No Headers'' 404)
       \<and> (\<forall>acct. header req ''Upgrade'' = Some ''websocket''
            \<and> header req ''accountId'' = Some acct \<and> acct \<noteq> [] \<longrightarrow>
            resp (App d req) = StubFetch (LINK_CLICK_TRACKER_OBJECT_idFromName d acct) req)"
  unfolding App_click_socket [OF assms]
  by (auto simp: get_click_socket_def respond_def split: option.splits)

theorem click_socket_endpoint_witness:
  "resp (App example_deps (click_socket_request ''acc_123''))
     = StubFetch ''tracker:acc_123'' (click_socket_request ''acc_123'')
   \<and> resp (App example_deps (click_socket_request ''acc_123''\<lparr>header := no_headers\<rparr>))
     = Text ''Expected Upgrade: websocket'' 426"
proof -
  have a: "path (click_socket_request ''acc_123'') = [''click-socket'', ''acc_123'']"
    by (simp add: click_socket_request_def)
  have b: "path (click_socket_request ''acc_123''\<lparr>header := no_headers\<rparr>)
             = [''click-socket'', ''acc_123'']"
    by (simp add: click_socket_request_def)
  show ?thesis
    using click_socket_endpoint [OF a, of example_deps]
      click_socket_endpoint [OF b, of example_deps]
    by (simp add: click_socket_request_def socket_headers_def no_headers_def example_deps_def)
qed

text \<open>
  C8, as stated, fails: no route serves \<open>GET /click-stream/{accountId}\<close>. Without an
  \<open>Upgrade\<close> header the request is answered by the 404 of an unmatched route, not by 426,
  and with the upgrade and the account header it is not forwarded to an aggregator.
\<close>

theorem click_stream_not_served:
  "header click_stream_request ''Upgrade'' = None
   \<and> resp (App example_deps click_stream_request) = NotFound
   \<and> status (resp (App example_deps click_stream_request)) \<noteq> Some 426
   \<and> header (click_stream_request\<lparr>header := socket_headers\<rparr>) ''Upgrade'' = Some ''websocket''
   \<and> header (click_stream_request\<lparr>header := socket_headers\<rparr>) ''accountId'' = Some ''acc_123''
   \<and> resp (App example_deps (click_stream_request\<lparr>header := socket_headers\<rparr>)) = NotFound"
  by (simp add: click_stream_request_def no_headers_def socket_headers_def App_def respond_def)

text \<open>
  C10. The aggregator instance is named by the \<open>accountId\<close> header, not by the path: two
  upgrade requests with the same non-empty \<open>accountId\<close> header reach the same instance,
  \<open>idFromName\<close> of the header, whatever account segments their paths carry.
\<close>

theorem aggregator_addressed_by_header:
  assumes "path r1 = [''click-socket'', p1]" and "p1 \<noteq> []"
    and "path r2 = [''click-socket'', p2]" and "p2 \<noteq> []"
    and "header r1 ''Upgrade'' = Some ''websocket''"
    and "header r2 ''Upgrade'' = Some ''websocket''"
    and "header r1 ''accountId'' = Some acct" and "header r2 ''accountId'' = Some acct"
    and "acct \<noteq> []"
  shows "instance_reached (resp (App d r1))
           = Some (LINK_CLICK_TRACKER_OBJECT_idFromName d acct)
       \<and> instance_reached (resp (App d r2)) = instance_reached (resp (App d r1))"
  using assms
  by (simp add: App_click_socket get_click_socket_def respond_def)

theorem aggregator_addressed_by_header_witness:
  "instance_reached (resp (App example_deps (click_socket_request ''acc_123'')))
     = Some ''tracker:acc_123''
   \<and> instance_reached (resp (App example_deps (click_socket_request ''acc_999'')))
     = Some ''tracker:acc_123''"
proof -
  have a: "path (click_socket_request ''acc_123'') = [''click-socket'', ''acc_123'']"
    and b: "path (click_socket_request ''acc_999'') = [''click-socket'', ''acc_999'']"
    and u: "header (click_socket_request ''acc_123'') ''Upgrade'' = Some ''websocket''"
    and v: "header (click_socket_request ''acc_999'') ''Upgrade'' = Some ''websocket''"
    and h: "header (click_socket_request ''acc_123'') ''accountId'' = Some ''acc_123''"
    and k: "header (click_socket_request ''acc_999'') ''accountId'' = Some ''acc_123''"
    by (simp_all add: click_socket_request_def socket_headers_def)
  have n: "''acc_123'' \<noteq> []" and m: "''acc_999'' \<noteq> []" by simp_all
  show ?thesis
    using aggregator_addressed_by_header [OF a n b m u v h k n, of example_deps]
    by (simp add: example_deps_def)
qed

section \<open>The click consumer\<close>

text \<open>
  C7. The Scheduler runs only after persistence has succeeded. When \<open>addLinkClick\<close>
  rejects, the handler rejects with the same error in the state persistence left, and
  the result is the same with any other Scheduler in its place: the Scheduler is not
  called. When \<open>addLinkClick\<close> resolves, the handler is the Scheduler's call in the state
  after persistence.
\<close>

theorem scheduler_only_after_persistence:
  "(\<forall>e. fst (addLinkClick' (msg_data event) s) = Some e \<longrightarrow>
       handleLinkClick addLinkClick' scheduleEvalWorfklow event s
         = addLinkClick' (msg_data event) s
     \<and> handleLinkClick addLinkClick' scheduleEvalWorfklow event s
         = handleLinkClick addLinkClick' otherScheduler event s)
   \<and> (fst (addLinkClick' (msg_data event) s) = None \<longrightarrow>
       handleLinkClick addLinkClick' scheduleEvalWorfklow event s
         = scheduleEvalWorfklow event (snd (addLinkClick' (msg_data event) s)))"
proof (cases "addLinkClick' (msg_data event) s")
  case (Pair outcome s1)
  show ?thesis
  proof (cases outcome)
    case None
    with Pair show ?thesis by (simp add: handleLinkClick_def)
  next
    case (Some e)
    with Pair have "handleLinkClick addLinkClick' sched event s = (Some e, s1)" for sched
      by (simp add: handleLinkClick_def)
    with Pair Some show ?thesis by simp
  qed
qed

theorem scheduler_only_after_persistence_witness:
  "handleLinkClick (addLinkClick example_eventId False) idleScheduler example_event empty_store
     = (Some RetryableError, empty_store)
   \<and> handleLinkClick (addLinkClick example_eventId False) failingScheduler example_event empty_store
     = (Some RetryableError, empty_store)
   \<and> handleLinkClick (addLinkClick example_eventId True) idleScheduler example_event empty_store
     = (None, \<lparr>store = [(example_eventId (msg_data example_event), msg_data example_event)]\<rparr>)"
  using scheduler_only_after_persistence
      [where addLinkClick' = "addLinkClick example_eventId False" and event = example_event
         and s = empty_store and scheduleEvalWorfklow = idleScheduler
         and otherScheduler = failingScheduler]
    scheduler_only_after_persistence
      [where addLinkClick' = "addLinkClick example_eventId True" and event = example_event
         and s = empty_store and scheduleEvalWorfklow = idleScheduler
         and otherScheduler = failingScheduler]
  by (simp add: addLinkClick_def idleScheduler_def failingScheduler_def empty_store_def
      handleLinkClick_def)

text \<open>
  C2, as amended. When persistence succeeds and the Scheduler's call then fails with an
  error, \<open>handleLinkClick\<close> fails with that error: its one result is the result for the
  whole message, and there is no separate result for the evaluation trigger. The handler
  undoes nothing: the state is the one the Scheduler left, starting from the state after
  persistence, so every observation of the state that no call of the Scheduler changes,
  such as the store of a Scheduler that does not write it, is as persistence left it.
\<close>

theorem scheduler_failure_is_message_failure:
  assumes "fst (addLinkClick' (msg_data event) s) = None"
    and "fst (scheduleEvalWorfklow event (snd (addLinkClick' (msg_data event) s))) = Some e"
  shows "fst (handleLinkClick addLinkClick' scheduleEvalWorfklow event s) = Some e
       \<and> snd (handleLinkClick addLinkClick' scheduleEvalWorfklow event s)
           = snd (scheduleEvalWorfklow event (snd (addLinkClick' (msg_data event) s)))
       \<and> ((\<forall>ev t. obs (snd (scheduleEvalWorfklow ev t)) = obs t) \<longrightarrow>
            obs (snd (handleLinkClick addLinkClick' scheduleEvalWorfklow event s))
              = obs (snd (addLinkClick' (msg_data event) s)))"
proof (cases "addLinkClick' (msg_data event) s")
  case (Pair outcome s1)
  with assms(1) have h: "handleLinkClick addLinkClick' scheduleEvalWorfklow event s
      = scheduleEvalWorfklow event s1"
    by (simp add: handleLinkClick_def)
  from Pair assms(2) have "fst (scheduleEvalWorfklow event s1) = Some e" by simp
  with h Pair show ?thesis by simp
qed

theorem scheduler_failure_is_message_failure_witness:
  "fst (handleLinkClick (addLinkClick example_eventId True) failingScheduler example_event
          empty_store) = Some RetryableError
   \<and> store (snd (handleLinkClick (addLinkClick example_eventId True) failingScheduler
          example_event empty_store))
     = [(example_eventId (msg_data example_event), msg_data example_event)]"
proof -
  have a: "fst (addLinkClick example_eventId True (msg_data example_event) empty_store) = None"
    by (simp add: addLinkClick_def)
  have b: "fst (failingScheduler example_event
             (snd (addLinkClick example_eventId True (msg_data example_event) empty_store)))
           = Some RetryableError"
    by (simp add: failingScheduler_def)
  have f: "\<forall>ev t. store (snd (failingScheduler ev t)) = store t"
    by (simp add: failingScheduler_def)
  show ?thesis
    using f scheduler_failure_is_message_failure
      [where addLinkClick' = "addLinkClick example_eventId True" and event = example_event
         and s = empty_store and scheduleEvalWorfklow = failingScheduler
         and e = RetryableError and obs = store, OF a b]
    by (simp add: addLinkClick_def empty_store_def)
qed

text \<open>
  C2, as stated, fails: the click of the scenario is persisted, the Scheduler's call
  fails, and the message as a whole fails with the Scheduler's \<open>RetryableError\<close>.
\<close>

theorem scheduler_failure_fails_message:
  "fst (addLinkClick example_eventId True (msg_data example_event) empty_store) = None
   \<and> store (snd (addLinkClick example_eventId True (msg_data example_event) empty_store))
       = [(example_eventId (msg_data example_event), msg_data example_event)]
   \<and> fst (failingScheduler example_event
            (snd (addLinkClick example_eventId True (msg_data example_event) empty_store)))
       = Some RetryableError
   \<and> fst (handleLinkClick (addLinkClick example_eventId True) failingScheduler
            example_event empty_store) = Some RetryableError"
  by (simp add: handleLinkClick_def addLinkClick_def failingScheduler_def empty_store_def)

section \<open>The Router\<close>





section \<open>Idempotent persistence\<close>

lemma records_of_absent: "k \<notin> fst ` set rows \<Longrightarrow> records_of k rows = []"
  by (induction rows) (auto simp: records_of_def)

lemma records_of_distinct: "distinct (map fst rows) \<Longrightarrow> length (records_of k rows) \<le> 1"
proof (induction rows)
  case Nil
  then show ?case by (simp add: records_of_def)
next
  case (Cons row rows)
  show ?case
  proof (cases "fst row = k")
    case True
    with Cons.prems have "k \<notin> fst ` set rows" by auto
    then have "records_of k rows = []" by (rule records_of_absent)
    with True show ?thesis by (simp add: records_of_def)
  next
    case False
    with Cons show ?thesis by (simp add: records_of_def)
  qed
qed

lemma upsert_keys: "fst ` set (upsert k v rows) = insert k (fst ` set rows)"
  by (induction rows) auto

lemma upsert_distinct: "distinct (map fst rows) \<Longrightarrow> distinct (map fst (upsert k v rows))"
  by (induction rows) (auto simp: upsert_keys)

lemma upsert_records:
  "distinct (map fst rows) \<Longrightarrow> records_of k (upsert k v rows) = [(k, v)]"
proof (induction rows)
  case Nil
  then show ?case by (simp add: records_of_def)
next
  case (Cons row rows)
  show ?case
  proof (cases "fst row = k")
    case True
    with Cons.prems have "k \<notin> fst ` set rows" by auto
    then have "records_of k rows = []" by (rule records_of_absent)
    with True show ?thesis by (simp add: records_of_def)
  next
    case False
    with Cons show ?thesis by (simp add: records_of_def)
  qed
qed

lemma upsert_idem: "upsert k v (upsert k v rows) = upsert k v rows"
  by (induction rows) auto

lemma upsert_other: "k' \<noteq> k \<Longrightarrow> records_of k' (upsert k v rows) = records_of k' rows"
  by (induction rows) (auto simp: records_of_def)

lemma store_after_handleLinkClick:
  assumes "\<And>e s. store (snd (sched e s)) = store s"
  shows "store (snd (handleLinkClick (addLinkClick eventId up) sched ev s))
           = (if up then upsert (eventId (msg_data ev)) (msg_data ev) (store s) else store s)"
  using assms by (simp add: handleLinkClick_def addLinkClick_def)

text \<open>
  C6. Persistence is idempotent in the event id. Let the same click event be handled
  twice by \<open>handleLinkClick\<close>, with a Scheduler that does not write the store, from a
  store with one record per event id at most. Then the store never holds more than one
  record of the event; it holds exactly one, the event's data, when persistence was up
  for one of the two deliveries; the second delivery leaves the store as it was when the
  first one persisted; and the records of every other event id are untouched.
\<close>

theorem persistence_idempotent:
  assumes frame: "\<And>e s. store (snd (sched e s)) = store s"
    and inv: "distinct (map fst (store s0))"
  shows "let s1 = snd (handleLinkClick (addLinkClick eventId up1) sched ev s0);
             s2 = snd (handleLinkClick (addLinkClick eventId up2) sched ev s1);
             k = eventId (msg_data ev)
         in length (records_of k (store s2)) \<le> 1
          \<and> (up1 \<or> up2 \<longrightarrow> records_of k (store s2) = [(k, msg_data ev)])
          \<and> (up1 \<longrightarrow> store s2 = store s1)
          \<and> (\<forall>k'. k' \<noteq> k \<longrightarrow> records_of k' (store s2) = records_of k' (store s0))
          \<and> distinct (map fst (store s2))"
proof -
  define s1 where "s1 = snd (handleLinkClick (addLinkClick eventId up1) sched ev s0)"
  define s2 where "s2 = snd (handleLinkClick (addLinkClick eventId up2) sched ev s1)"
  define k where "k = eventId (msg_data ev)"
  have e1: "store s1 = (if up1 then upsert k (msg_data ev) (store s0) else store s0)"
    unfolding s1_def k_def using frame by (rule store_after_handleLinkClick)
  have e2: "store s2 = (if up2 then upsert k (msg_data ev) (store s1) else store s1)"
    unfolding s2_def k_def using frame by (rule store_after_handleLinkClick)
  have d1: "distinct (map fst (store s1))"
    using inv by (simp add: e1 upsert_distinct)
  have d2: "distinct (map fst (store s2))"
    using d1 by (simp add: e2 upsert_distinct)
  have c1: "length (records_of k (store s2)) \<le> 1"
    using d2 by (rule records_of_distinct)
  have c2: "up1 \<or> up2 \<longrightarrow> records_of k (store s2) = [(k, msg_data ev)]"
    using inv d1 by (auto simp: e1 e2 upsert_records upsert_idem)
  have c3: "up1 \<longrightarrow> store s2 = store s1"
    by (simp add: e1 e2 upsert_idem)
  have c4: "\<forall>k'. k' \<noteq> k \<longrightarrow> records_of k' (store s2) = records_of k' (store s0)"
    by (simp add: e1 e2 upsert_other)
  from c1 c2 c3 c4 d2 show ?thesis
    unfolding Let_def s1_def [symmetric] s2_def [symmetric] k_def [symmetric] by blast
qed

theorem persistence_idempotent_witness:
  "records_of (''dAd5d'', ''2024-01-15T14:32:18.000Z'')
     (store (snd (handleLinkClick (addLinkClick example_eventId True) failingScheduler example_event
       (snd (handleLinkClick (addLinkClick example_eventId True) failingScheduler example_event
          empty_store)))))
     = [((''dAd5d'', ''2024-01-15T14:32:18.000Z''), msg_data example_event)]"
proof -
  have frame: "\<And>e s. store (snd (failingScheduler e s)) = store s"
    by (simp add: failingScheduler_def)
  have inv: "distinct (map fst (store empty_store))"
    by (simp add: empty_store_def)
  have k: "example_eventId (msg_data example_event) = (''dAd5d'', ''2024-01-15T14:32:18.000Z'')"
    by (simp add: example_eventId_def example_event_def)
  show ?thesis
    using persistence_idempotent
      [where sched = failingScheduler and ?s0.0 = empty_store and eventId = example_eventId
         and ?up1.0 = True and ?up2.0 = True and ev = example_event, OF frame inv]
    unfolding Let_def k by blast
qed

end
